theory Spec2Isabelle
  imports Main "HOL-Library.Word"
begin

section \<open>Browser environment\<close>

text \<open>
  A JavaScript string is a sequence of UTF-16 code units; \<open>length\<close> counts code units and
  \<open>===\<close> compares the sequences. Values typed by the user (email, password, name) are
  kept in that form. URLs, hostnames and fragments are ASCII as the browser serialises
  them, and are kept as \<open>string\<close>.
\<close>

type_synonym code_unit = "16 word"
type_synonym js_string = "code_unit list"

definition of_ascii :: "string \<Rightarrow> js_string" where
  "of_ascii s = map (\<lambda>c. of_nat (of_char c)) s"

text \<open>The parts of \<open>window.location\<close> that the hooks read.\<close>

record window =
  origin :: string
  hostname :: string
  hash :: string

text \<open>
  \<open>typeof window === 'undefined'\<close> is the case \<open>None\<close>.
  \<open>import.meta.env.BASE_URL\<close> may be undefined (\<open>None\<close>) or a string.
\<close>

record env =
  win :: "window option"
  BASE_URL :: "string option"

text \<open>\<open>String.prototype.endsWith\<close> and \<open>String.prototype.slice\<close>.\<close>

definition endsWith :: "'a list \<Rightarrow> 'a list \<Rightarrow> bool" where
  "endsWith s t = (length t \<le> length s \<and> drop (length s - length t) s = t)"

definition slice :: "'a list \<Rightarrow> int \<Rightarrow> int \<Rightarrow> 'a list" where
  "slice s start stop =
     (let n = int (length s);
          lo = (if start < 0 then max (n + start) 0 else min start n);
          hi = (if stop < 0 then max (n + stop) 0 else min stop n)
      in take (nat (hi - lo)) (drop (nat lo) s))"

section \<open>RedirectResolver, one definition per file of the repository\<close>

text \<open>part_000 (second file): origin plus the build's base path without its trailing slash.\<close>

definition getBaseUrl_000 :: "env \<Rightarrow> string" where
  "getBaseUrl_000 e =
     (case win e of
        None \<Rightarrow> ''''
      | Some w \<Rightarrow>
          (let basePath = (case BASE_URL e of
                             None \<Rightarrow> ''/''
                           | Some b \<Rightarrow> if b = [] then ''/'' else b);
               cleanBasePath = (if endsWith basePath ''/''
                                then slice basePath 0 (- 1)
                                else basePath)
           in origin w @ cleanBasePath))"

text \<open>part_001: explicit switch on \<open>localhost\<close> and \<open>127.0.0.1\<close>.\<close>

definition getBaseUrl_001 :: "env \<Rightarrow> string" where
  "getBaseUrl_001 e =
     (case win e of
        None \<Rightarrow> ''''
      | Some w \<Rightarrow>
          if hostname w = ''localhost'' \<or> hostname w = ''127.0.0.1''
          then ''http://localhost:8080/HabitChainTracker_prototype1/''
          else ''https://jefferymaina.github.io/HabitChainTracker_prototype1'')"

text \<open>part_002, first file: the same switch under the name \<open>getOAuthRedirectUrl\<close>.\<close>

definition getOAuthRedirectUrl :: "env \<Rightarrow> string" where
  "getOAuthRedirectUrl e =
     (case win e of
        None \<Rightarrow> ''''
      | Some w \<Rightarrow>
          if hostname w = ''localhost'' \<or> hostname w = ''127.0.0.1''
          then ''http://localhost:8080/HabitChainTracker_prototype1/''
          else ''https://jefferymaina.github.io/HabitChainTracker_prototype1'')"

definition getAppBaseUrl :: "env \<Rightarrow> string" where
  "getAppBaseUrl e = (let oauth = getOAuthRedirectUrl e in oauth)"

text \<open>part_002, second file (lines 182-187), and part_003: switch on \<open>localhost\<close> alone.\<close>

definition getBaseUrl_002 :: "env \<Rightarrow> string" where
  "getBaseUrl_002 e =
     (case win e of
        None \<Rightarrow> ''''
      | Some w \<Rightarrow>
          if hostname w = ''localhost''
          then ''http://localhost:8080/HabitChainTracker_prototype1''
          else ''https://jefferymaina.github.io/HabitChainTracker_prototype1'')"

section \<open>Requests sent to the external auth service\<close>

text \<open>
  One constructor per SDK method the hooks call, with the arguments they pass:
  \<open>signUp\<close> (email, password, \<open>options.emailRedirectTo\<close>, \<open>options.data.full_name\<close>),
  \<open>signInWithPassword\<close>, \<open>signInWithOAuth\<close> (provider, \<open>options.redirectTo\<close> when given),
  \<open>signOut\<close>, \<open>resetPasswordForEmail\<close> (email, \<open>redirectTo\<close>).
\<close>

datatype ext_call =
    SignUp js_string js_string string "js_string option"
  | SignInWithPassword js_string js_string
  | SignInWithOAuth string "string option"
  | SignOut
  | ResetPasswordForEmail js_string string

text \<open>The redirect target a request carries, if it carries one.\<close>

fun redirect_target :: "ext_call \<Rightarrow> string option" where
  "redirect_target (SignUp _ _ r _) = Some r"
| "redirect_target (SignInWithPassword _ _) = None"
| "redirect_target (SignInWithOAuth _ r) = r"
| "redirect_target SignOut = None"
| "redirect_target (ResetPasswordForEmail _ r) = Some r"

text \<open>\<open>name ? { full_name: name } : undefined\<close>: an absent or empty name is falsy.\<close>

definition full_name_data :: "js_string option \<Rightarrow> js_string option" where
  "full_name_data name =
     (case name of None \<Rightarrow> None | Some n \<Rightarrow> if n = [] then None else Some n)"

subsection \<open>part_000\<close>

definition signUp_000 :: "env \<Rightarrow> js_string \<Rightarrow> js_string \<Rightarrow> js_string option \<Rightarrow> ext_call" where
  "signUp_000 e email password name =
     (let baseUrl = getBaseUrl_000 e
      in SignUp email password (baseUrl @ ''/#/auth'') (full_name_data name))"

definition signIn_000 :: "js_string \<Rightarrow> js_string \<Rightarrow> ext_call" where
  "signIn_000 email password = SignInWithPassword email password"

definition signInWithGoogle_000 :: "ext_call" where
  "signInWithGoogle_000 = SignInWithOAuth ''google'' None"

definition signOut_000 :: "ext_call" where
  "signOut_000 = SignOut"

definition resetPassword_000 :: "env \<Rightarrow> js_string \<Rightarrow> ext_call" where
  "resetPassword_000 e email =
     (let baseUrl = getBaseUrl_000 e
      in ResetPasswordForEmail email (baseUrl @ ''/#/auth''))"

subsection \<open>part_001\<close>

definition signUp_001 :: "env \<Rightarrow> js_string \<Rightarrow> js_string \<Rightarrow> js_string option \<Rightarrow> ext_call" where
  "signUp_001 e email password name =
     (let baseUrl = getBaseUrl_001 e
      in SignUp email password (baseUrl @ ''#/auth'') (full_name_data name))"

definition signInWithGoogle_001 :: "env \<Rightarrow> ext_call" where
  "signInWithGoogle_001 e =
     (let baseUrl = getBaseUrl_001 e in SignInWithOAuth ''google'' (Some baseUrl))"

definition resetPassword_001 :: "env \<Rightarrow> js_string \<Rightarrow> ext_call" where
  "resetPassword_001 e email =
     (let baseUrl = getBaseUrl_001 e
      in ResetPasswordForEmail email (baseUrl @ ''#/auth''))"

subsection \<open>part_002, first file (lines 1-163)\<close>

definition signUp_002a :: "env \<Rightarrow> js_string \<Rightarrow> js_string \<Rightarrow> js_string option \<Rightarrow> ext_call" where
  "signUp_002a e email password name =
     (let baseUrl = getAppBaseUrl e
      in SignUp email password (baseUrl @ ''#/auth'') (full_name_data name))"

definition resetPassword_002a :: "env \<Rightarrow> js_string \<Rightarrow> ext_call" where
  "resetPassword_002a e email =
     (let baseUrl = getAppBaseUrl e
      in ResetPasswordForEmail email (baseUrl @ ''#/auth''))"

definition signInWithGoogle_002a :: "env \<Rightarrow> ext_call" where
  "signInWithGoogle_002a e =
     (let redirectUrl = getOAuthRedirectUrl e
      in SignInWithOAuth ''google'' (Some redirectUrl))"

subsection \<open>part_002, second file (lines 164-282)\<close>

definition signInWithGoogle_002b :: "env \<Rightarrow> ext_call" where
  "signInWithGoogle_002b e =
     (let baseUrl = getBaseUrl_002 e
      in SignInWithOAuth ''google'' (Some (baseUrl @ ''/#/'')))"

section \<open>SessionStore state\<close>

text \<open>
  Modelled from the spec: the SDK's \<open>User\<close> and \<open>Session\<close> types are declared outside
  this repository. An identity has a stable identifier, an email and an optional
  display name; a session is an opaque grant tied to an identity.
\<close>

record identity =
  uid :: string
  user_email :: string
  user_full_name :: "string option"

record auth_session =
  access_token :: string
  session_user :: identity

text \<open>The three \<open>useState\<close> cells of \<open>AuthProvider\<close>.\<close>

record auth_state =
  user :: "identity option"
  session :: "auth_session option"
  loading :: bool

definition initial_state :: auth_state where
  "initial_state = \<lparr>user = None, session = None, loading = True\<rparr>"

text \<open>
  The callback given to \<open>onAuthStateChange\<close> and the callback of \<open>getSession().then\<close>
  (part_000, part_001 and both files of part_002): \<open>setSession\<close>, \<open>setUser\<close>,
  \<open>setLoading(false)\<close>, in that order. \<open>session?.user ?? null\<close> is \<open>map_option\<close>.
\<close>

definition onAuthStateChange_cb ::
  "string \<Rightarrow> auth_session option \<Rightarrow> 'z auth_state_scheme \<Rightarrow> 'z auth_state_scheme" where
  "onAuthStateChange_cb event s st =
     st\<lparr>session := s, user := map_option session_user s, loading := False\<rparr>"

definition getSession_cb ::
  "auth_session option \<Rightarrow> 'z auth_state_scheme \<Rightarrow> 'z auth_state_scheme" where
  "getSession_cb s st =
     st\<lparr>session := s, user := map_option session_user s, loading := False\<rparr>"

text \<open>
  part_003: both callbacks also write \<open>window.location.hash\<close>; the subscription
  callback does so only for the events \<open>SIGNED_IN\<close> and \<open>INITIAL_SESSION\<close>.
\<close>

definition onAuthStateChange_003 ::
  "string \<Rightarrow> auth_session option \<Rightarrow> auth_state \<times> window \<Rightarrow> auth_state \<times> window" where
  "onAuthStateChange_003 event s = (\<lambda>(st, w).
     (let st' = st\<lparr>session := s, user := map_option session_user s, loading := False\<rparr>
      in if s \<noteq> None \<and> (event = ''SIGNED_IN'' \<or> event = ''INITIAL_SESSION'')
         then (let h = hash w
               in if h = '''' \<or> h = ''#/'' \<or> h = ''#/auth''
                  then (st', w\<lparr>hash := ''#/dashboard''\<rparr>)
                  else (st', w))
         else (st', w)))"

definition getSession_003 ::
  "auth_session option \<Rightarrow> auth_state \<times> window \<Rightarrow> auth_state \<times> window" where
  "getSession_003 s = (\<lambda>(st, w).
     (let st' = st\<lparr>session := s, user := map_option session_user s, loading := False\<rparr>
      in if s \<noteq> None
         then (let h = hash w
               in if h = '''' \<or> h = ''#/'' \<or> h = ''#/auth''
                  then (st', w\<lparr>hash := ''#/dashboard''\<rparr>)
                  else (st', w))
         else (st', w)))"

section \<open>The context value and \<open>useAuth\<close>\<close>

text \<open>\<open>AuthContextType\<close>: the state cells and the five operations.\<close>

record auth_context = auth_state +
  signUp :: "js_string \<Rightarrow> js_string \<Rightarrow> js_string option \<Rightarrow> ext_call"
  signIn :: "js_string \<Rightarrow> js_string \<Rightarrow> ext_call"
  signInWithGoogle :: ext_call
  signOut :: ext_call
  resetPassword :: "js_string \<Rightarrow> ext_call"

text \<open>The \<open>value\<close> that \<open>AuthProvider\<close> of part_000 hands to its children.\<close>

definition AuthProvider_000 :: "env \<Rightarrow> auth_state \<Rightarrow> auth_context" where
  "AuthProvider_000 e st =
     \<lparr>user = user st, session = session st, loading = loading st,
      signUp = signUp_000 e, signIn = signIn_000,
      signInWithGoogle = signInWithGoogle_000, signOut = signOut_000,
      resetPassword = resetPassword_000 e\<rparr>"

datatype js_error = Error string

text \<open>
  \<open>useContext(AuthContext)\<close> is \<open>None\<close> outside a provider (the context's default is
  \<open>undefined\<close>) and the provider's value inside one. part_000, part_001 and the first
  file of part_002 test \<open>!ctx\<close> (an object is never falsy); the second file of part_002
  and part_003 test \<open>context === undefined\<close>.
\<close>

definition useAuth_000 :: "'c option \<Rightarrow> js_error + 'c" where
  "useAuth_000 ctx =
     (case ctx of
        None \<Rightarrow> Inl (Error ''useAuth must be used within an AuthProvider'')
      | Some c \<Rightarrow> Inr c)"

definition useAuth_002 :: "'c option \<Rightarrow> js_error + 'c" where
  "useAuth_002 context =
     (if context = None
      then Inl (Error ''useAuth must be used within an AuthProvider'')
      else Inr (the context))"

section \<open>SessionStore as a transition system\<close>

text \<open>
  What can happen to the store of part_000: one of the five operations is invoked, the
  subscription delivers a notification, or the initial session fetch resolves. An
  operation sends its request and writes no state cell; only the two callbacks do.
\<close>

datatype store_event =
    DoSignUp js_string js_string "js_string option"
  | DoSignIn js_string js_string
  | DoSignInWithGoogle
  | DoSignOut
  | DoResetPassword js_string
  | Notification string "auth_session option"
  | InitialSession "auth_session option"

fun store_step :: "env \<Rightarrow> store_event \<Rightarrow> auth_state \<Rightarrow> ext_call list \<times> auth_state" where
  "store_step e (DoSignUp em pw nm) st = ([signUp_000 e em pw nm], st)"
| "store_step e (DoSignIn em pw) st = ([signIn_000 em pw], st)"
| "store_step e DoSignInWithGoogle st = ([signInWithGoogle_000], st)"
| "store_step e DoSignOut st = ([signOut_000], st)"
| "store_step e (DoResetPassword em) st = ([resetPassword_000 e em], st)"
| "store_step e (Notification ev s) st = ([], onAuthStateChange_cb ev s st)"
| "store_step e (InitialSession s) st = ([], getSession_cb s st)"

fun store_run :: "env \<Rightarrow> store_event list \<Rightarrow> auth_state \<Rightarrow> auth_state" where
  "store_run e [] st = st"
| "store_run e (ev # evs) st = store_run e evs (snd (store_step e ev st))"

section \<open>RouteGuard\<close>

text \<open>The router's location object, and what a component can return.\<close>

record location =
  pathname :: string
  search :: string
  location_hash :: string
  key :: string

datatype 'c element =
    Null
  | Navigate (to: string) (replace: bool) (state_from: location)
  | Children 'c

text \<open>
  \<open>ProtectedRoute\<close> (src/components/protectedroute.tsx, and the copy in part_003):
  \<open>useAuth()\<close> may throw; \<open>!user\<close> holds exactly for \<open>null\<close>.
\<close>

definition ProtectedRoute ::
  "'z auth_state_scheme option \<Rightarrow> location \<Rightarrow> 'c \<Rightarrow> js_error + 'c element" where
  "ProtectedRoute ctx loc children =
     (case useAuth_000 ctx of
        Inl err \<Rightarrow> Inl err
      | Inr c \<Rightarrow>
          if loading c then Inr Null
          else if user c = None then Inr (Navigate ''/auth'' True loc)
          else Inr (Children children))"

section \<open>The sign-in / sign-up form\<close>

datatype auth_mode = Login | Signup

datatype dialog_type = DialogSignup | DialogReset

text \<open>
  What the external service answers to a request: the promise resolves with
  \<open>{ error }\<close> (\<open>None\<close> for \<open>null\<close>, otherwise the error's message) or rejects.
\<close>

datatype response = Resolved "string option" | Rejected

text \<open>
  The observable effects of \<open>handleSubmit\<close>, in order: \<open>toast\<close> carries title,
  description and variant; \<open>Call\<close> is a request sent to the external service.
\<close>

datatype ui_effect =
    PreventDefault
  | SetLoading bool
  | Toast string string string
  | Call ext_call
  | SetEmailDialogType dialog_type
  | SetShowEmailDialog bool

text \<open>
  \<open>handleSubmit\<close> of part_000 (lines 42-98). The two early \<open>return\<close>s sit inside the
  \<open>try\<close>, so the \<open>finally\<close> block runs after them too. A rejected promise is caught
  by the \<open>catch\<close> block.
\<close>

definition handleSubmit ::
  "auth_context \<Rightarrow> (ext_call \<Rightarrow> response) \<Rightarrow> auth_mode \<Rightarrow>
   js_string \<Rightarrow> js_string \<Rightarrow> js_string \<Rightarrow> js_string \<Rightarrow> ui_effect list" where
  "handleSubmit ctx service mode email password confirmPassword name =
     [PreventDefault, SetLoading True] @
     (if mode = Signup then
        (if password \<noteq> confirmPassword then
           [Toast ''Passwords do not match'' ''Please make sure your passwords match.''
              ''destructive'',
            SetLoading False]
         else if length password < 6 then
           [Toast ''Password too short'' ''Password must be at least 6 characters.''
              ''destructive'',
            SetLoading False]
         else
           (let request = signUp ctx email password (Some name)
            in Call request #
               (case service request of
                  Rejected \<Rightarrow>
                    [Toast ''An error occurred'' ''Please try again later.'' ''destructive'']
                | Resolved (Some message) \<Rightarrow>
                    [Toast ''Sign up failed'' message ''destructive'']
                | Resolved None \<Rightarrow>
                    [SetEmailDialogType DialogSignup, SetShowEmailDialog True])))
      else
        (let request = signIn ctx email password
         in Call request #
            (case service request of
               Rejected \<Rightarrow>
                 [Toast ''An error occurred'' ''Please try again later.'' ''destructive'']
             | Resolved (Some message) \<Rightarrow>
                 [Toast ''Login failed'' message ''destructive'']
             | Resolved None \<Rightarrow> [])))
     @ [SetLoading False]"

text \<open>The requests in a trace of effects, and the sign-up requests among them.\<close>

fun ext_calls :: "ui_effect list \<Rightarrow> ext_call list" where
  "ext_calls [] = []"
| "ext_calls (Call c # es) = c # ext_calls es"
| "ext_calls (_ # es) = ext_calls es"

fun is_SignUp :: "ext_call \<Rightarrow> bool" where
  "is_SignUp (SignUp _ _ _ _) = True"
| "is_SignUp _ = False"

definition signUp_calls :: "ui_effect list \<Rightarrow> nat" where
  "signUp_calls tr = length (filter is_SignUp (ext_calls tr))"

section \<open>Values used in the examples\<close>

definition loopback_env :: env where
  "loopback_env =
     \<lparr>win = Some \<lparr>origin = ''http://127.0.0.1:8080'', hostname = ''127.0.0.1'', hash = ''''\<rparr>,
      BASE_URL = Some ''/HabitChainTracker_prototype1/''\<rparr>"

definition localhost_env :: env where
  "localhost_env =
     \<lparr>win = Some \<lparr>origin = ''http://localhost:8080'', hostname = ''localhost'', hash = ''''\<rparr>,
      BASE_URL = Some ''/HabitChainTracker_prototype1/''\<rparr>"

definition unslashed_env :: env where
  "unslashed_env =
     \<lparr>win = Some \<lparr>origin = ''http://localhost:8080'', hostname = ''localhost'', hash = ''''\<rparr>,
      BASE_URL = Some ''/HabitChainTracker_prototype1''\<rparr>"

definition example_identity :: identity where
  "example_identity =
     \<lparr>uid = ''u1'', user_email = ''user@example.com'', user_full_name = None\<rparr>"

definition example_session :: auth_session where
  "example_session = \<lparr>access_token = ''t1'', session_user = example_identity\<rparr>"

definition dashboard_location :: location where
  "dashboard_location =
     \<lparr>pathname = ''/dashboard'', search = '''', location_hash = '''', key = ''default''\<rparr>"

section \<open>RedirectResolver: the hostname switch\<close>

lemma getBaseUrl_001_switch:
  "win e = Some w \<Longrightarrow>
   getBaseUrl_001 e =
     (if hostname w = ''localhost'' \<or> hostname w = ''127.0.0.1''
      then ''http://localhost:8080/HabitChainTracker_prototype1/''
      else ''https://jefferymaina.github.io/HabitChainTracker_prototype1'')"
  by (simp add: getBaseUrl_001_def)

lemma getOAuthRedirectUrl_switch:
  "win e = Some w \<Longrightarrow>
   getOAuthRedirectUrl e =
     (if hostname w = ''localhost'' \<or> hostname w = ''127.0.0.1''
      then ''http://localhost:8080/HabitChainTracker_prototype1/''
      else ''https://jefferymaina.github.io/HabitChainTracker_prototype1'')"
  by (simp add: getOAuthRedirectUrl_def)

lemma getBaseUrl_001_hostname_only:
  "win e = Some w \<Longrightarrow> win e' = Some w' \<Longrightarrow> hostname w = hostname w' \<Longrightarrow>
   getBaseUrl_001 e = getBaseUrl_001 e'"
  by (simp add: getBaseUrl_001_def)

lemma getBaseUrl_002_switch:
  "win e = Some w \<Longrightarrow>
   getBaseUrl_002 e =
     (if hostname w = ''localhost''
      then ''http://localhost:8080/HabitChainTracker_prototype1''
      else ''https://jefferymaina.github.io/HabitChainTracker_prototype1'')"
  by (simp add: getBaseUrl_002_def)

lemma getBaseUrl_002_hostname_only:
  "win e = Some w \<Longrightarrow> win e' = Some w' \<Longrightarrow> hostname w = hostname w' \<Longrightarrow>
   getBaseUrl_002 e = getBaseUrl_002 e'"
  by (simp add: getBaseUrl_002_def)

text \<open>
  C1. The resolver is to return the local URL for \<open>localhost\<close> and for \<open>127.0.0.1\<close>, and
  the production URL for every other hostname. The resolvers of part_001 and of the
  first file of part_002 do (\<open>getBaseUrl_001_switch\<close>, \<open>getOAuthRedirectUrl_switch\<close>).
  The resolver of part_002 lines 182-187 (the same text is in part_003) compares with
  \<open>localhost\<close> alone: given the hostname \<open>127.0.0.1\<close> it returns the production URL,
  which is not its local URL, while the resolver of part_001 returns its local URL in
  the same environment.
\<close>

theorem getBaseUrl_002_loopback:
  "getBaseUrl_002 loopback_env = ''https://jefferymaina.github.io/HabitChainTracker_prototype1''
   \<and> getBaseUrl_002 loopback_env \<noteq> ''http://localhost:8080/HabitChainTracker_prototype1''
   \<and> getBaseUrl_001 loopback_env = ''http://localhost:8080/HabitChainTracker_prototype1/''"
  by (simp add: getBaseUrl_002_def getBaseUrl_001_def loopback_env_def)

section \<open>RedirectResolver: the OAuth redirect target\<close>

lemma getOAuthRedirectUrl_no_fragment: "CHR ''#'' \<notin> set (getOAuthRedirectUrl e)"
proof (cases "win e")
  case None
  then show ?thesis by (simp add: getOAuthRedirectUrl_def)
next
  case (Some w)
  then show ?thesis by (simp add: getOAuthRedirectUrl_switch)
qed

lemma signInWithGoogle_002a_target:
  "redirect_target (signInWithGoogle_002a e) = Some (getOAuthRedirectUrl e)"
  by (simp add: signInWithGoogle_002a_def)

lemma signInWithGoogle_001_no_fragment:
  "\<exists>u. redirect_target (signInWithGoogle_001 e) = Some u \<and> CHR ''#'' \<notin> set u"
  by (simp add: signInWithGoogle_001_def getBaseUrl_001_def split: option.split)

lemma signInWithGoogle_002b_target:
  "redirect_target (signInWithGoogle_002b e) = Some (getBaseUrl_002 e @ ''/#/'')"
  by (simp add: signInWithGoogle_002b_def)

text \<open>
  C2. The OAuth redirect target is to carry no fragment. In the first file of part_002
  it is the resolver's URL, which has no \<open>#\<close> in any environment
  (\<open>signInWithGoogle_002a_target\<close>, \<open>getOAuthRedirectUrl_no_fragment\<close>). In the second file
  of part_002 (lines 238-250) \<open>signInWithGoogle\<close> appends \<open>/#/\<close> to the base URL: on
  \<open>localhost\<close> the target it passes is
  \<open>http://localhost:8080/HabitChainTracker_prototype1/#/\<close>, which has a fragment.
\<close>

theorem signInWithGoogle_002b_fragment:
  "redirect_target (signInWithGoogle_002b localhost_env)
     = Some ''http://localhost:8080/HabitChainTracker_prototype1/#/''
   \<and> CHR ''#'' \<in> set (the (redirect_target (signInWithGoogle_002b localhost_env)))
   \<and> redirect_target (signInWithGoogle_002a localhost_env)
     = Some ''http://localhost:8080/HabitChainTracker_prototype1/''"
  by (simp add: signInWithGoogle_002b_target signInWithGoogle_002a_target getBaseUrl_002_def
      getOAuthRedirectUrl_def localhost_env_def)

section \<open>Sign-up validation\<close>

lemma ext_calls_append: "ext_calls (xs @ ys) = ext_calls xs @ ext_calls ys"
  by (induction xs rule: ext_calls.induct) simp_all

lemma handleSubmit_mismatch:
  "pw \<noteq> cpw \<Longrightarrow>
   handleSubmit ctx service Signup em pw cpw nm =
     [PreventDefault, SetLoading True,
      Toast ''Passwords do not match'' ''Please make sure your passwords match.''
        ''destructive'',
      SetLoading False, SetLoading False]"
  by (simp add: handleSubmit_def)

lemma handleSubmit_too_short:
  "length pw < 6 \<Longrightarrow>
   handleSubmit ctx service Signup em pw pw nm =
     [PreventDefault, SetLoading True,
      Toast ''Password too short'' ''Password must be at least 6 characters.''
        ''destructive'',
      SetLoading False, SetLoading False]"
  by (simp add: handleSubmit_def)

lemma handleSubmit_valid:
  "6 \<le> length pw \<Longrightarrow>
   ext_calls (handleSubmit ctx service Signup em pw pw nm) = [signUp ctx em pw (Some nm)]"
  by (simp add: handleSubmit_def Let_def ext_calls_append split: response.split option.split)

lemma signUp_000_is_SignUp: "is_SignUp (signUp_000 e em pw nm)"
  by (simp add: signUp_000_def)

text \<open>
  C3. For every sign-up submission through the provider of part_000, the number of
  external sign-up calls is one when the password has at least 6 code units and equals
  the confirmation, and zero otherwise. On a mismatch no request at all is sent and
  "Passwords do not match" is reported; on a matching password shorter than 6 no
  request is sent and "Password too short" is reported; on a valid pair the only
  request sent is the sign-up request.
\<close>

theorem handleSubmit_signUp_gate:
  "signUp_calls (handleSubmit (AuthProvider_000 e st) service Signup em pw cpw nm)
     = (if 6 \<le> length pw \<and> pw = cpw then 1 else 0)
   \<and> (pw \<noteq> cpw \<longrightarrow>
        ext_calls (handleSubmit (AuthProvider_000 e st) service Signup em pw cpw nm) = []
        \<and> Toast ''Passwords do not match'' ''Please make sure your passwords match.''
             ''destructive''
           \<in> set (handleSubmit (AuthProvider_000 e st) service Signup em pw cpw nm))
   \<and> (pw = cpw \<and> length pw < 6 \<longrightarrow>
        ext_calls (handleSubmit (AuthProvider_000 e st) service Signup em pw cpw nm) = []
        \<and> Toast ''Password too short'' ''Password must be at least 6 characters.''
             ''destructive''
           \<in> set (handleSubmit (AuthProvider_000 e st) service Signup em pw cpw nm))
   \<and> (pw = cpw \<and> 6 \<le> length pw \<longrightarrow>
        ext_calls (handleSubmit (AuthProvider_000 e st) service Signup em pw cpw nm)
          = [signUp_000 e em pw (Some nm)])"
proof -
  let ?ctx = "AuthProvider_000 e st"
  consider (mismatch) "pw \<noteq> cpw"
    | (short) "pw = cpw" "length pw < 6"
    | (valid) "pw = cpw" "6 \<le> length pw"
    by fastforce
  then show ?thesis
  proof cases
    case mismatch
    then show ?thesis
      by (simp add: handleSubmit_mismatch signUp_calls_def)
  next
    case short
    then show ?thesis
      by (simp add: handleSubmit_too_short signUp_calls_def)
  next
    case valid
    have "signUp ?ctx = signUp_000 e"
      by (simp add: AuthProvider_000_def)
    with valid show ?thesis
      by (simp add: handleSubmit_valid signUp_calls_def signUp_000_is_SignUp)
  qed
qed

text \<open>
  C3, the scenario of the spec: the password \<open>abc12\<close> (5 code units), confirmed
  correctly, is rejected with "Password too short" and no request is sent.
\<close>

theorem handleSubmit_signUp_gate_witness:
  "signUp_calls (handleSubmit (AuthProvider_000 localhost_env initial_state)
      (\<lambda>c. Resolved None) Signup (of_ascii ''user@example.com'') (of_ascii ''abc12'')
      (of_ascii ''abc12'') (of_ascii ''Ada'')) = 0
   \<and> ext_calls (handleSubmit (AuthProvider_000 localhost_env initial_state)
      (\<lambda>c. Resolved None) Signup (of_ascii ''user@example.com'') (of_ascii ''abc12'')
      (of_ascii ''abc12'') (of_ascii ''Ada'')) = []
   \<and> Toast ''Password too short'' ''Password must be at least 6 characters.'' ''destructive''
      \<in> set (handleSubmit (AuthProvider_000 localhost_env initial_state)
      (\<lambda>c. Resolved None) Signup (of_ascii ''user@example.com'') (of_ascii ''abc12'')
      (of_ascii ''abc12'') (of_ascii ''Ada''))"
  using handleSubmit_signUp_gate [of localhost_env initial_state "\<lambda>c. Resolved None"
      "of_ascii ''user@example.com''" "of_ascii ''abc12''" "of_ascii ''abc12''"
      "of_ascii ''Ada''"]
  by (simp add: of_ascii_def)

section \<open>RouteGuard: the decision\<close>

text \<open>
  C4. Inside a provider, for every context value: while \<open>loading\<close> is true the guard
  returns \<open>null\<close> whatever \<open>user\<close> is; when \<open>loading\<close> is false it returns the children
  exactly when a user is present, and the redirect when none is.
\<close>

theorem ProtectedRoute_decision:
  "(loading c \<longrightarrow> ProtectedRoute (Some c) loc children = Inr Null)
   \<and> (\<not> loading c \<longrightarrow>
        (ProtectedRoute (Some c) loc children = Inr (Children children)) = (user c \<noteq> None))
   \<and> (\<not> loading c \<and> user c = None \<longrightarrow>
        ProtectedRoute (Some c) loc children = Inr (Navigate ''/auth'' True loc))"
  by (simp add: ProtectedRoute_def useAuth_000_def)

text \<open>
  C4 on three states: loading with a user already set, resolved with a session, and
  resolved without one.
\<close>

theorem ProtectedRoute_decision_witness:
  "ProtectedRoute (Some (initial_state\<lparr>user := Some example_identity\<rparr>)) dashboard_location ()
     = Inr Null
   \<and> ProtectedRoute (Some (getSession_cb (Some example_session) initial_state))
       dashboard_location () = Inr (Children ())
   \<and> ProtectedRoute (Some (getSession_cb None initial_state)) dashboard_location ()
     = Inr (Navigate ''/auth'' True dashboard_location)"
  using ProtectedRoute_decision [of "initial_state\<lparr>user := Some example_identity\<rparr>"
      dashboard_location "()"]
    ProtectedRoute_decision [of "getSession_cb (Some example_session) initial_state"
      dashboard_location "()"]
    ProtectedRoute_decision [of "getSession_cb None initial_state" dashboard_location "()"]
  by (simp add: initial_state_def getSession_cb_def)

text \<open>
  C8. With \<open>loading = false\<close>, \<open>user = null\<close> and a current location whose pathname is
  \<open>/dashboard\<close>, the guard returns a replacing \<open>Navigate\<close> to \<open>/auth\<close> whose state
  carries that location object as \<open>from\<close>.
\<close>

theorem ProtectedRoute_redirect:
  "\<not> loading c \<Longrightarrow> user c = None \<Longrightarrow> pathname loc = ''/dashboard'' \<Longrightarrow>
   ProtectedRoute (Some c) loc children = Inr (Navigate ''/auth'' True loc)
   \<and> pathname (state_from (Navigate ''/auth'' True loc)) = ''/dashboard''"
  by (simp add: ProtectedRoute_def useAuth_000_def)

theorem ProtectedRoute_redirect_witness:
  "ProtectedRoute (Some \<lparr>user = None, session = None, loading = False\<rparr>)
     dashboard_location ()
   = Inr (Navigate ''/auth'' True dashboard_location)
   \<and> pathname (state_from (Navigate ''/auth'' True dashboard_location)) = ''/dashboard''"
proof -
  have "\<not> loading \<lparr>user = None, session = None, loading = False\<rparr>"
    and "user \<lparr>user = None, session = None, loading = False\<rparr> = None"
    and "pathname dashboard_location = ''/dashboard''"
    by (simp_all add: dashboard_location_def)
  then show ?thesis
    by (rule ProtectedRoute_redirect)
qed

section \<open>SessionStore: convergence of the two start-up callbacks\<close>

text \<open>
  C5. For every session value and every store state, the initial-session-fetch callback
  and the change-subscription callback commute when given the same session value, each
  is idempotent, and the state they leave has that session, its user, and
  \<open>loading = false\<close>.
\<close>

theorem callbacks_converge:
  "getSession_cb s (onAuthStateChange_cb ev s st) = onAuthStateChange_cb ev s (getSession_cb s st)
   \<and> onAuthStateChange_cb ev s (onAuthStateChange_cb ev s st) = onAuthStateChange_cb ev s st
   \<and> getSession_cb s (getSession_cb s st) = getSession_cb s st
   \<and> user (getSession_cb s (onAuthStateChange_cb ev s st)) = map_option session_user s
   \<and> session (getSession_cb s (onAuthStateChange_cb ev s st)) = s
   \<and> loading (getSession_cb s (onAuthStateChange_cb ev s st)) = False"
  by (simp add: getSession_cb_def onAuthStateChange_cb_def)

section \<open>SessionStore: the loading latch\<close>

lemma store_step_latch: "\<not> loading st \<Longrightarrow> \<not> loading (snd (store_step e ev st))"
  by (cases ev) (simp_all add: onAuthStateChange_cb_def getSession_cb_def)

lemma store_run_latch: "\<not> loading st \<Longrightarrow> \<not> loading (store_run e evs st)"
proof (induction evs arbitrary: st)
  case Nil
  then show ?case by simp
next
  case (Cons ev evs)
  from Cons.prems have "\<not> loading (snd (store_step e ev st))"
    by (rule store_step_latch)
  then show ?case
    by (simp add: Cons.IH)
qed

lemma store_run_append: "store_run e (evs @ evs') st = store_run e evs' (store_run e evs st)"
  by (induction evs arbitrary: st) simp_all

text \<open>
  C6. The store starts with \<open>loading = true\<close>. In every state reached from the initial
  state by a sequence of operations and callbacks, if \<open>loading\<close> is false then it is
  false after every further sequence of sign-ups, sign-ins, Google sign-ins, sign-outs,
  password resets, subscription notifications and initial-session results.
\<close>

theorem loading_latch:
  "loading initial_state
   \<and> (\<not> loading (store_run e evs initial_state) \<longrightarrow>
        \<not> loading (store_run e (evs @ evs') initial_state))"
proof
  show "loading initial_state"
    by (simp add: initial_state_def)
  show "\<not> loading (store_run e evs initial_state) \<longrightarrow>
        \<not> loading (store_run e (evs @ evs') initial_state)"
    by (simp add: store_run_append store_run_latch)
qed

theorem loading_latch_witness:
  "loading initial_state
   \<and> \<not> loading (store_run localhost_env [InitialSession None] initial_state)
   \<and> \<not> loading (store_run localhost_env
        ([InitialSession None] @
         [DoSignIn (of_ascii ''user@example.com'') (of_ascii ''secret1''),
          Notification ''SIGNED_IN'' (Some example_session), DoSignOut,
          Notification ''SIGNED_OUT'' None]) initial_state)"
  using loading_latch [of localhost_env "[InitialSession None]"
      "[DoSignIn (of_ascii ''user@example.com'') (of_ascii ''secret1''),
        Notification ''SIGNED_IN'' (Some example_session), DoSignOut,
        Notification ''SIGNED_OUT'' None]"]
  by (simp add: initial_state_def getSession_cb_def)

section \<open>RedirectResolver: the email-action redirect target\<close>

lemma slice_drop_last: "slice s 0 (- 1) = butlast s"
  by (simp add: slice_def Let_def butlast_conv_take nat_diff_distrib' max_def)

lemma getBaseUrl_000_trailing_slash:
  "win e = Some w \<Longrightarrow> BASE_URL e = Some (b @ ''/'') \<Longrightarrow>
   getBaseUrl_000 e = origin w @ b"
  by (simp add: getBaseUrl_000_def endsWith_def slice_drop_last)

lemma email_redirect_targets_001:
  "redirect_target (signUp_001 e em pw nm) = Some (getBaseUrl_001 e @ ''#/auth'')
   \<and> redirect_target (resetPassword_001 e em') = Some (getBaseUrl_001 e @ ''#/auth'')"
  by (simp add: signUp_001_def resetPassword_001_def)

lemma email_redirect_targets_002a:
  "redirect_target (signUp_002a e em pw nm) = Some (getOAuthRedirectUrl e @ ''#/auth'')
   \<and> redirect_target (resetPassword_002a e em') = Some (getOAuthRedirectUrl e @ ''#/auth'')"
  by (simp add: signUp_002a_def resetPassword_002a_def getAppBaseUrl_def)

text \<open>
  C7. For every environment and all emails, the target \<open>signUp\<close> passes as
  \<open>emailRedirectTo\<close> and the target \<open>resetPassword\<close> passes as \<open>redirectTo\<close> are equal,
  and both are the resolver's base URL followed by \<open>/#/auth\<close>: a slash, then the
  fragment \<open>#/auth\<close>.
\<close>

theorem email_redirect_targets:
  "redirect_target (signUp_000 e em pw nm) = redirect_target (resetPassword_000 e em')
   \<and> redirect_target (signUp_000 e em pw nm) = Some (getBaseUrl_000 e @ ''/#/auth'')
   \<and> redirect_target (resetPassword_000 e em') = Some (getBaseUrl_000 e @ ''/#/auth'')"
  by (simp add: signUp_000_def resetPassword_000_def)

text \<open>
  C7 as stated, the base URL with \<open>#/auth\<close> appended, fails in part_000. On
  \<open>localhost\<close> with the build's base path \<open>/HabitChainTracker_prototype1/\<close> the base URL
  is \<open>http://localhost:8080/HabitChainTracker_prototype1\<close> and the target is
  \<open>http://localhost:8080/HabitChainTracker_prototype1/#/auth\<close>. With the base path
  \<open>/HabitChainTracker_prototype1\<close> (no trailing slash) the base URL is the origin
  followed by that path, and the target is the same as before.
\<close>

theorem email_redirect_counterexample:
  "getBaseUrl_000 localhost_env = ''http://localhost:8080/HabitChainTracker_prototype1''
   \<and> redirect_target (signUp_000 localhost_env (of_ascii ''user@example.com'')
        (of_ascii ''secret1'') None)
     = Some ''http://localhost:8080/HabitChainTracker_prototype1/#/auth''
   \<and> redirect_target (signUp_000 localhost_env (of_ascii ''user@example.com'')
        (of_ascii ''secret1'') None)
     \<noteq> Some (getBaseUrl_000 localhost_env @ ''#/auth'')
   \<and> getBaseUrl_000 unslashed_env = ''http://localhost:8080'' @ ''/HabitChainTracker_prototype1''
   \<and> redirect_target (resetPassword_000 unslashed_env (of_ascii ''user@example.com''))
     = Some ''http://localhost:8080/HabitChainTracker_prototype1/#/auth''
   \<and> redirect_target (resetPassword_000 unslashed_env (of_ascii ''user@example.com''))
     \<noteq> Some (getBaseUrl_000 unslashed_env @ ''#/auth'')"
  by (simp add: signUp_000_def resetPassword_000_def getBaseUrl_000_def localhost_env_def
      unslashed_env_def endsWith_def slice_def)

section \<open>Navigation after sign-in (part_003)\<close>

lemma callbacks_003_converge:
  "getSession_003 s (onAuthStateChange_003 ev s (st, w))
     = onAuthStateChange_003 ev s (getSession_003 s (st, w))"
  by (simp add: getSession_003_def onAuthStateChange_003_def Let_def)

text \<open>
  C9. In part_003 the location hash after a callback is \<open>#/dashboard\<close> when the
  delivered session is non-null, the hash was \<open>''\<close>, \<open>#/\<close> or \<open>#/auth\<close>, and, for the
  subscription callback, the event is \<open>SIGNED_IN\<close> or \<open>INITIAL_SESSION\<close>; in every
  other case the hash is unchanged. The initial session fetch has no event condition.
\<close>

theorem hash_navigation:
  "hash (snd (onAuthStateChange_003 ev s (st, w)))
     = (if s \<noteq> None \<and> (ev = ''SIGNED_IN'' \<or> ev = ''INITIAL_SESSION'')
           \<and> (hash w = '''' \<or> hash w = ''#/'' \<or> hash w = ''#/auth'')
        then ''#/dashboard'' else hash w)
   \<and> hash (snd (getSession_003 s (st, w)))
     = (if s \<noteq> None \<and> (hash w = '''' \<or> hash w = ''#/'' \<or> hash w = ''#/auth'')
        then ''#/dashboard'' else hash w)"
  by (simp add: onAuthStateChange_003_def getSession_003_def Let_def)

text \<open>
  C9 as stated fails for a notification with another event: \<open>TOKEN_REFRESHED\<close> with a
  non-null session and the empty hash leaves the hash empty.
\<close>

theorem hash_navigation_counterexample:
  "hash (snd (onAuthStateChange_003 ''TOKEN_REFRESHED'' (Some example_session)
      (initial_state,
       \<lparr>origin = ''http://localhost:8080'', hostname = ''localhost'', hash = ''''\<rparr>)))
   = ''''
   \<and> hash (snd (onAuthStateChange_003 ''TOKEN_REFRESHED'' (Some example_session)
      (initial_state,
       \<lparr>origin = ''http://localhost:8080'', hostname = ''localhost'', hash = ''''\<rparr>)))
   \<noteq> ''#/dashboard''"
  by (simp add: onAuthStateChange_003_def)

section \<open>\<open>useAuth\<close> outside a provider\<close>

text \<open>
  C10. Outside a provider (context undefined) \<open>useAuth\<close> throws the error
  "useAuth must be used within an AuthProvider"; inside a provider it returns the
  provider's value unchanged. Both forms of the test (\<open>!ctx\<close> and
  \<open>context === undefined\<close>) behave so.
\<close>

theorem useAuth_outside_provider:
  "useAuth_000 (None :: 'c option) = Inl (Error ''useAuth must be used within an AuthProvider'')
   \<and> useAuth_000 (Some (v :: 'c)) = Inr v
   \<and> useAuth_002 (None :: 'c option) = Inl (Error ''useAuth must be used within an AuthProvider'')
   \<and> useAuth_002 (Some v) = Inr v"
  by (simp add: useAuth_000_def useAuth_002_def)

end
